theory Spec2Isabelle
  imports Complex_Main
begin

section \<open>Values, errors and tabular input\<close>

text \<open>
  The notebook \<^verbatim>\<open>Creating input dataset for MetSim\<close> reads four CSV exports with pandas
  and writes a forcing, a domain and a state dataset with xarray. The numbers it handles
  are IEEE doubles. A cell is either the missing marker \<^verbatim>\<open>np.nan\<close> or a number; the
  numbers are modelled as reals, so the rounding of each floating-point operation is
  abstracted away, while the propagation of \<^verbatim>\<open>nan\<close> through arithmetic is kept.
\<close>

datatype cell = NaN | Num real

text \<open>Elementwise subtraction and multiplication by a scalar: \<^verbatim>\<open>nan\<close> is absorbing.\<close>

fun csub :: "cell \<Rightarrow> cell \<Rightarrow> cell" where
  "csub (Num a) (Num b) = Num (a - b)"
| "csub _ _ = NaN"

fun cmul :: "cell \<Rightarrow> real \<Rightarrow> cell" where
  "cmul (Num a) k = Num (a * k)"
| "cmul NaN k = NaN"

text \<open>
  The exceptions the two assembly cells can raise: a column label that is absent from the
  data frame (or a variable name absent from the dataset), and numpy's refusal to
  broadcast a value array into the slice it is assigned to.
\<close>

datatype error = KeyError string | ValueError

text \<open>
  The result of \<^verbatim>\<open>pd.read_csv(path, skiprows=[0,1])\<close>, restricted to its numeric
  columns: a dictionary from the literal column label to the column's values in row
  order.
\<close>

type_synonym dataframe = "string \<rightharpoonup> cell list"

text \<open>\<^verbatim>\<open>df[label]\<close>\<close>

definition getitem :: "dataframe \<Rightarrow> string \<Rightarrow> error + cell list" where
  "getitem df label = (case df label of None \<Rightarrow> Inl (KeyError label) | Some col \<Rightarrow> Inr col)"

text \<open>The three column labels, trailing space included.\<close>

definition PREC :: string where "PREC = ''PREC.I-1 (in) ''"
definition TMIN :: string where "TMIN = ''TMIN.D-1 (degC) ''"
definition TMAX :: string where "TMAX = ''TMAX.D-1 (degC) ''"

section \<open>Series operations\<close>

text \<open>
  \<^verbatim>\<open>Series.shift(1)\<close> moves every value one row down and puts \<^verbatim>\<open>nan\<close> in the first
  row; \<^verbatim>\<open>Series.diff()\<close> is the series minus its shift, so it has as many rows as the
  series and its first row is \<^verbatim>\<open>nan\<close>.
\<close>

definition shift1 :: "cell list \<Rightarrow> cell list" where
  "shift1 xs = take (length xs) (NaN # xs)"

definition diff :: "cell list \<Rightarrow> cell list" where
  "diff xs = map2 csub xs (shift1 xs)"

text \<open>\<^verbatim>\<open>a[1:]\<close>\<close>

definition slice_from1 :: "'a list \<Rightarrow> 'a list" where
  "slice_from1 xs = drop 1 xs"

text \<open>
  \<^verbatim>\<open>a[-k:]\<close>: the start index \<^verbatim>\<open>len(a) - k\<close> is clipped at 0, so an array with fewer
  than \<^verbatim>\<open>k\<close> entries is returned whole; \<^verbatim>\<open>a[-0:]\<close> is \<^verbatim>\<open>a[0:]\<close>.
\<close>

definition slice_last :: "nat \<Rightarrow> 'a list \<Rightarrow> 'a list" where
  "slice_last k xs = (if k = 0 then xs else drop (length xs - k) xs)"

text \<open>\<^verbatim>\<open>a * 25.4\<close>\<close>

definition in_to_mm :: "cell list \<Rightarrow> cell list" where
  "in_to_mm xs = map (\<lambda>c. cmul c (254 / 10)) xs"

text \<open>
  The forcing cell:
  \<^verbatim>\<open>prec_vals = df['PREC.I-1 (in) '].diff().values[1:] * 25.4\<close>,
  \<^verbatim>\<open>tmin_vals = df['TMIN.D-1 (degC) '].values[1:]\<close>,
  \<^verbatim>\<open>tmax_vals = df['TMAX.D-1 (degC) '].values[1:]\<close>.
  \<open>increments\<close> is the part of the first expression before the unit conversion.
\<close>

definition increments :: "cell list \<Rightarrow> cell list" where
  "increments col = slice_from1 (diff col)"

definition prec_vals :: "cell list \<Rightarrow> cell list" where
  "prec_vals col = in_to_mm (increments col)"

definition tmin_vals :: "cell list \<Rightarrow> cell list" where
  "tmin_vals col = slice_from1 col"

definition tmax_vals :: "cell list \<Rightarrow> cell list" where
  "tmax_vals col = slice_from1 col"

text \<open>
  The state cell assigns the same three names:
  \<^verbatim>\<open>prec_vals = df['PREC.I-1 (in) '].diff().values[-90:] * 25.4\<close>,
  \<^verbatim>\<open>tmin_vals = df['TMIN.D-1 (degC) '].values[-90:]\<close>,
  \<^verbatim>\<open>tmax_vals = df['TMAX.D-1 (degC) '].values[-90:]\<close>.
\<close>

definition state_prec_vals :: "cell list \<Rightarrow> cell list" where
  "state_prec_vals col = in_to_mm (slice_last 90 (diff col))"

definition state_tmin_vals :: "cell list \<Rightarrow> cell list" where
  "state_tmin_vals col = slice_last 90 col"

definition state_tmax_vals :: "cell list \<Rightarrow> cell list" where
  "state_tmax_vals col = slice_last 90 col"

section \<open>Time axes\<close>

text \<open>
  A daily timestamp is modelled by its proleptic Gregorian day number, computed as
  Python's \<^verbatim>\<open>date.toordinal\<close> does (1 January of year 1 is day 1). A date literal such
  as \<^verbatim>\<open>'10/3/2009'\<close> is the triple \<open>(2009, 10, 3)\<close>.
\<close>

type_synonym date = "int \<times> nat \<times> int"

definition is_leap :: "int \<Rightarrow> bool" where
  "is_leap y = (y mod 4 = 0 \<and> (y mod 100 \<noteq> 0 \<or> y mod 400 = 0))"

definition days_before_year :: "int \<Rightarrow> int" where
  "days_before_year y = (y - 1) * 365 + (y - 1) div 4 - (y - 1) div 100 + (y - 1) div 400"

definition days_in_month :: "int \<Rightarrow> nat \<Rightarrow> int" where
  "days_in_month y m =
     (if m = 2 then (if is_leap y then 29 else 28)
      else if m = 4 \<or> m = 6 \<or> m = 9 \<or> m = 11 then 30 else 31)"

definition days_before_month :: "int \<Rightarrow> nat \<Rightarrow> int" where
  "days_before_month y m = sum_list (map (days_in_month y) [1..<m])"

definition ymd2ord :: "date \<Rightarrow> int" where
  "ymd2ord dt = (case dt of (y, m, d) \<Rightarrow> days_before_year y + days_before_month y m + d)"

text \<open>
  \<^verbatim>\<open>pd.date_range(start, end)\<close> with the default daily frequency: every day from
  \<^verbatim>\<open>start\<close> to \<^verbatim>\<open>end\<close>, both included; empty when \<^verbatim>\<open>end\<close> precedes \<^verbatim>\<open>start\<close>.
\<close>

definition date_range :: "date \<Rightarrow> date \<Rightarrow> int list" where
  "date_range start end = [ymd2ord start .. ymd2ord end]"

definition forcing_dates :: "int list" where
  "forcing_dates = date_range (2010, 1, 1) (2010, 12, 31)"

definition state_dates :: "int list" where
  "state_dates = date_range (2009, 10, 3) (2009, 12, 31)"

section \<open>Datasets\<close>

text \<open>
  An \<^verbatim>\<open>xr.Dataset\<close> with coordinates \<^verbatim>\<open>time\<close>, \<^verbatim>\<open>lat\<close>, \<^verbatim>\<open>lon\<close> and a dictionary of
  data variables. Every variable has the shape \<^verbatim>\<open>(len(dates), 1, 1)\<close> and is only ever
  addressed as \<^verbatim>\<open>values[:, 0, 0]\<close>, so an array is the list of its cells along time.
\<close>

record dataset =
  coords_time :: "int list"
  coords_lat :: "real list"
  coords_lon :: "real list"
  data_vars :: "string \<rightharpoonup> cell list"

text \<open>\<^verbatim>\<open>xr.Dataset(coords={'time': dates, 'lat': [43.17], 'lon': [-116.51]})\<close>\<close>

definition new_dataset :: "int list \<Rightarrow> dataset" where
  "new_dataset dates =
     \<lparr>coords_time = dates, coords_lat = [4317 / 100], coords_lon = [- 11651 / 100],
      data_vars = Map.empty\<rparr>"

text \<open>\<^verbatim>\<open>ds[varname] = xr.DataArray(data=np.full(shape, np.nan), ...)\<close>\<close>

definition add_nan_var :: "string \<Rightarrow> dataset \<Rightarrow> dataset" where
  "add_nan_var varname ds =
     ds\<lparr>data_vars := (data_vars ds)(varname \<mapsto> replicate (length (coords_time ds)) NaN)\<rparr>"

text \<open>\<^verbatim>\<open>for varname in ['prec', 't_min', 't_max']: ...\<close>\<close>

definition init_vars :: "dataset \<Rightarrow> dataset" where
  "init_vars ds = fold add_nan_var [''prec'', ''t_min'', ''t_max''] ds"

text \<open>
  Assigning a one-dimensional value array to a slice of \<open>n\<close> cells: numpy accepts an
  array of exactly \<open>n\<close> values, broadcasts an array of exactly one value to all \<open>n\<close>
  cells, and raises \<^verbatim>\<open>ValueError\<close> for every other length.
\<close>

definition broadcast_to :: "nat \<Rightarrow> cell list \<Rightarrow> error + cell list" where
  "broadcast_to n vals =
     (if length vals = n then Inr vals
      else if length vals = 1 then Inr (replicate n (hd vals))
      else Inl ValueError)"

text \<open>\<^verbatim>\<open>ds[varname].values[:, 0, 0] = vals\<close>; the dataset is updated in place.\<close>

definition set_values :: "string \<Rightarrow> cell list \<Rightarrow> dataset \<Rightarrow> error + dataset" where
  "set_values varname vals ds =
     (case data_vars ds varname of
        None \<Rightarrow> Inl (KeyError varname)
      | Some arr \<Rightarrow>
          (case broadcast_to (length arr) vals of
             Inl e \<Rightarrow> Inl e
           | Inr vals' \<Rightarrow> Inr (ds\<lparr>data_vars := (data_vars ds)(varname \<mapsto> vals')\<rparr>)))"

text \<open>
  The cell that fills the forcing dataset. It runs statement by statement; an exception
  stops it and leaves the dataset as the statements before it made it. The result is the
  dataset in memory together with the exception, if any; \<^verbatim>\<open>to_netcdf\<close> is reached only
  when there is none.
\<close>

definition fill_forcing :: "dataframe \<Rightarrow> dataframe \<Rightarrow> dataset \<Rightarrow> dataset \<times> error option" where
  "fill_forcing precip temp met_data =
     (case getitem precip PREC of Inl e \<Rightarrow> (met_data, Some e) | Inr pc \<Rightarrow>
      case set_values ''prec'' (prec_vals pc) met_data of Inl e \<Rightarrow> (met_data, Some e) | Inr ds1 \<Rightarrow>
      case getitem temp TMIN of Inl e \<Rightarrow> (ds1, Some e) | Inr tn \<Rightarrow>
      case getitem temp TMAX of Inl e \<Rightarrow> (ds1, Some e) | Inr tx \<Rightarrow>
      case set_values ''t_min'' (tmin_vals tn) ds1 of Inl e \<Rightarrow> (ds1, Some e) | Inr ds2 \<Rightarrow>
      case set_values ''t_max'' (tmax_vals tx) ds2 of Inl e \<Rightarrow> (ds2, Some e) | Inr ds3 \<Rightarrow>
      (ds3, None))"

definition fill_state :: "dataframe \<Rightarrow> dataframe \<Rightarrow> dataset \<Rightarrow> dataset \<times> error option" where
  "fill_state precip temp state =
     (case getitem precip PREC of Inl e \<Rightarrow> (state, Some e) | Inr pc \<Rightarrow>
      case set_values ''prec'' (state_prec_vals pc) state of Inl e \<Rightarrow> (state, Some e) | Inr ds1 \<Rightarrow>
      case getitem temp TMIN of Inl e \<Rightarrow> (ds1, Some e) | Inr tn \<Rightarrow>
      case getitem temp TMAX of Inl e \<Rightarrow> (ds1, Some e) | Inr tx \<Rightarrow>
      case set_values ''t_min'' (state_tmin_vals tn) ds1 of Inl e \<Rightarrow> (ds1, Some e) | Inr ds2 \<Rightarrow>
      case set_values ''t_max'' (state_tmax_vals tx) ds2 of Inl e \<Rightarrow> (ds2, Some e) | Inr ds3 \<Rightarrow>
      (ds3, None))"

text \<open>The forcing dataset of 2010 and the state dataset of the 90 days before it.\<close>

definition build_forcing :: "dataframe \<Rightarrow> dataframe \<Rightarrow> dataset \<times> error option" where
  "build_forcing precip_2010 temp_2010 =
     fill_forcing precip_2010 temp_2010 (init_vars (new_dataset forcing_dates))"

definition build_state :: "dataframe \<Rightarrow> dataframe \<Rightarrow> dataset \<times> error option" where
  "build_state precip_2009 temp_2009 =
     fill_state precip_2009 temp_2009 (init_vars (new_dataset state_dates))"

section \<open>Series lemmas\<close>

lemma length_shift1: "length (shift1 xs) = length xs"
  by (simp add: shift1_def)

lemma length_diff: "length (diff xs) = length xs"
  by (simp add: diff_def length_shift1)

lemma diff_nth_0: "0 < length xs \<Longrightarrow> diff xs ! 0 = NaN"
  by (cases xs) (simp_all add: diff_def shift1_def)

lemma diff_nth_Suc:
  assumes "Suc i < length xs"
  shows "diff xs ! Suc i = csub (xs ! Suc i) (xs ! i)"
proof -
  have "shift1 xs ! Suc i = xs ! i"
    using assms by (simp add: shift1_def)
  then show ?thesis
    using assms by (simp add: diff_def length_shift1)
qed

lemma length_increments: "length (increments col) = length col - 1"
  by (simp add: increments_def slice_from1_def length_diff)

lemma increments_nth:
  assumes "Suc i < length col"
  shows "increments col ! i = csub (col ! Suc i) (col ! i)"
  using assms by (simp add: increments_def slice_from1_def length_diff diff_nth_Suc)

lemma length_prec_vals: "length (prec_vals col) = length col - 1"
  by (simp add: prec_vals_def in_to_mm_def length_increments)

lemma prec_vals_nth:
  assumes "Suc i < length col"
  shows "prec_vals col ! i = cmul (csub (col ! Suc i) (col ! i)) (254 / 10)"
proof -
  have "i < length (increments col)"
    using assms by (simp add: length_increments)
  then have "prec_vals col ! i = cmul (increments col ! i) (254 / 10)"
    by (simp add: prec_vals_def in_to_mm_def)
  then show ?thesis
    by (simp only: increments_nth [OF assms])
qed

lemma increments_Num:
  "increments (map Num rs) = map (\<lambda>i. Num (rs ! Suc i - rs ! i)) [0..<length rs - 1]"
  by (rule nth_equalityI) (simp_all add: length_increments increments_nth)

lemma telescope_sum_list:
  fixes rs :: "real list"
  assumes "rs \<noteq> []"
  shows "sum_list (map (\<lambda>i. rs ! Suc i - rs ! i) [0..<length rs - 1]) = last rs - hd rs"
proof -
  have "sum_list (map (\<lambda>i. rs ! Suc i - rs ! i) [0..<length rs - 1])
      = (\<Sum>i<length rs - 1. rs ! Suc i - rs ! i)"
    by (simp add: interv_sum_list_conv_sum_set_nat atLeast0LessThan)
  also have "\<dots> = rs ! (length rs - 1) - rs ! 0"
    by (rule sum_lessThan_telescope)
  also have "\<dots> = last rs - hd rs"
    using assms by (simp add: last_conv_nth hd_conv_nth)
  finally show ?thesis .
qed

lemma prec_vals_Num_nth:
  assumes "i + 1 < length rs"
  shows "prec_vals (map Num rs) ! i = Num ((rs ! (i + 1) - rs ! i) * (254 / 10))"
  using assms prec_vals_nth [of i "map Num rs"] by simp

lemma length_slice_last: "length (slice_last k xs) = (if k = 0 then length xs else min k (length xs))"
  by (auto simp add: slice_last_def)

lemma length_in_to_mm: "length (in_to_mm xs) = length xs"
  by (simp add: in_to_mm_def)

lemma in_to_mm_drop: "in_to_mm (drop n xs) = drop n (in_to_mm xs)"
  by (simp add: in_to_mm_def drop_map)

lemma length_state_prec_vals: "length (state_prec_vals col) = min 90 (length col)"
  by (simp add: state_prec_vals_def length_in_to_mm length_slice_last length_diff)

lemma state_prec_vals_short:
  assumes "length pc \<le> 90"
  shows "state_prec_vals pc = in_to_mm (diff pc)"
  using assms by (simp add: state_prec_vals_def slice_last_def length_diff)

lemma state_prec_vals_increments:
  assumes "91 \<le> length col"
  shows "state_prec_vals col = drop (length col - 91) (prec_vals col)"
proof -
  have "length col - 90 = Suc (length col - 91)"
    using assms by simp
  then have "drop (length col - 90) (diff col) = drop (length col - 91) (drop 1 (diff col))"
    by simp
  then show ?thesis
    using assms
    by (simp add: state_prec_vals_def prec_vals_def increments_def slice_from1_def
        slice_last_def length_diff in_to_mm_drop)
qed

lemma state_tmin_vals_drop: "state_tmin_vals col = drop (length col - 90) col"
  by (simp add: state_tmin_vals_def slice_last_def)

lemma state_tmax_vals_drop: "state_tmax_vals col = drop (length col - 90) col"
  by (simp add: state_tmax_vals_def slice_last_def)

lemma length_state_tmin_vals: "length (state_tmin_vals col) = min 90 (length col)"
  by (simp add: state_tmin_vals_def length_slice_last)

lemma length_state_tmax_vals: "length (state_tmax_vals col) = min 90 (length col)"
  by (simp add: state_tmax_vals_def length_slice_last)

lemma state_prec_vals_nth:
  assumes "91 \<le> length col" and "i < 90"
  shows "state_prec_vals col ! i =
           cmul (csub (col ! (length col - 90 + i)) (col ! (length col - 91 + i))) (254 / 10)"
proof -
  have s: "Suc (length col - 91 + i) = length col - 90 + i"
    using assms(1) by simp
  have lt: "Suc (length col - 91 + i) < length col"
    using assms by simp
  have "state_prec_vals col ! i = prec_vals col ! (length col - 91 + i)"
    using assms by (simp add: state_prec_vals_increments length_prec_vals)
  also have "\<dots> = cmul (csub (col ! Suc (length col - 91 + i)) (col ! (length col - 91 + i))) (254 / 10)"
    using lt by (rule prec_vals_nth)
  finally show ?thesis by (simp only: s)
qed

lemma state_tmin_vals_nth:
  assumes "90 \<le> length col" and "i < 90"
  shows "state_tmin_vals col ! i = col ! (length col - 90 + i)"
  using assms by (simp add: state_tmin_vals_drop)

lemma state_tmax_vals_nth:
  assumes "90 \<le> length col" and "i < 90"
  shows "state_tmax_vals col ! i = col ! (length col - 90 + i)"
  using assms by (simp add: state_tmax_vals_drop)

section \<open>Time-axis lemmas\<close>

lemma ord_2010_01_01: "ymd2ord (2010, 1, 1) = 733773"
  by (simp add: ymd2ord_def days_before_year_def days_before_month_def)

lemma ord_2010_12_31: "ymd2ord (2010, 12, 31) = 734137"
  by (simp add: ymd2ord_def days_before_year_def days_before_month_def days_in_month_def
      is_leap_def upt_rec)

lemma ord_2009_10_03: "ymd2ord (2009, 10, 3) = 733683"
  by (simp add: ymd2ord_def days_before_year_def days_before_month_def days_in_month_def
      is_leap_def upt_rec)

lemma ord_2009_12_31: "ymd2ord (2009, 12, 31) = 733772"
  by (simp add: ymd2ord_def days_before_year_def days_before_month_def days_in_month_def
      is_leap_def upt_rec)



lemma forcing_dates_eq: "forcing_dates = [733773 .. 734137]"
  unfolding forcing_dates_def date_range_def ord_2010_01_01 ord_2010_12_31 by (rule refl)

lemma state_dates_eq: "state_dates = [733683 .. 733772]"
  unfolding state_dates_def date_range_def ord_2009_10_03 ord_2009_12_31 by (rule refl)

lemma length_forcing_dates: "length forcing_dates = 365"
  unfolding forcing_dates_eq by (simp del: upto_rec_numeral)

lemma length_state_dates: "length state_dates = 90"
  unfolding state_dates_eq by (simp del: upto_rec_numeral)

lemma hd_forcing_dates: "hd forcing_dates = 733773"
  unfolding forcing_dates_eq by (simp add: upto_rec1 [of 733773 734137] del: upto_rec_numeral)

lemma last_state_dates: "last state_dates = 733772"
  unfolding state_dates_eq by (simp add: upto_rec2 [of 733683 733772] del: upto_rec_numeral)

lemma state_forcing_append:
  "state_dates @ forcing_dates = date_range (2009, 10, 3) (2010, 12, 31)"
proof -
  have "[733683 .. 734137] = [733683 .. 733773 - 1] @ 733773 # [733773 + 1 .. (734137::int)]"
    by (rule upto_split3) simp_all
  also have "733773 # [733773 + 1 .. (734137::int)] = [733773 .. 734137]"
    by (simp add: upto_rec1 [of 733773 734137] del: upto_rec_numeral)
  finally have "[733683 .. 734137] = [733683 .. 733772] @ [733773 .. (734137::int)]"
    by (simp del: upto_rec_numeral)
  then show ?thesis
    unfolding state_dates_eq forcing_dates_eq date_range_def ord_2009_10_03 ord_2010_12_31
    by (rule sym)
qed

lemma state_forcing_disjoint: "set state_dates \<inter> set forcing_dates = {}"
  unfolding state_dates_eq forcing_dates_eq by (auto simp del: upto_rec_numeral)

section \<open>Dataset lemmas\<close>

lemma coords_time_init: "coords_time (init_vars (new_dataset dates)) = dates"
  by (simp add: init_vars_def add_nan_var_def new_dataset_def)

lemma init_forcing:
  "init_vars (new_dataset forcing_dates) =
     \<lparr>coords_time = forcing_dates, coords_lat = [4317 / 100], coords_lon = [- 11651 / 100],
      data_vars = [''prec'' \<mapsto> replicate 365 NaN, ''t_min'' \<mapsto> replicate 365 NaN,
                   ''t_max'' \<mapsto> replicate 365 NaN]\<rparr>"
  by (simp add: init_vars_def add_nan_var_def new_dataset_def length_forcing_dates)

lemma init_state:
  "init_vars (new_dataset state_dates) =
     \<lparr>coords_time = state_dates, coords_lat = [4317 / 100], coords_lon = [- 11651 / 100],
      data_vars = [''prec'' \<mapsto> replicate 90 NaN, ''t_min'' \<mapsto> replicate 90 NaN,
                   ''t_max'' \<mapsto> replicate 90 NaN]\<rparr>"
  by (simp add: init_vars_def add_nan_var_def new_dataset_def length_state_dates)

lemma set_values_coords:
  "set_values v vals ds = Inr ds' \<Longrightarrow> coords_time ds' = coords_time ds"
  by (auto simp add: set_values_def split: option.splits sum.splits)

lemma fill_forcing_coords: "coords_time (fst (fill_forcing p t ds)) = coords_time ds"
  by (auto simp add: fill_forcing_def split: sum.splits dest!: set_values_coords)

lemma fill_state_coords: "coords_time (fst (fill_state p t ds)) = coords_time ds"
  by (auto simp add: fill_state_def split: sum.splits dest!: set_values_coords)

lemma forcing_prec_mismatch:
  assumes "precip PREC = Some pc"
    and "length (prec_vals pc) \<noteq> 365" and "length (prec_vals pc) \<noteq> 1"
  shows "build_forcing precip temp = (init_vars (new_dataset forcing_dates), Some ValueError)"
  using assms
  by (simp add: build_forcing_def fill_forcing_def getitem_def set_values_def broadcast_to_def
      init_forcing)

lemma forcing_tmin_mismatch:
  assumes "precip PREC = Some pc" "temp TMIN = Some tn" "temp TMAX = Some tx"
    and "length (prec_vals pc) = 365"
    and "length (tmin_vals tn) \<noteq> 365" and "length (tmin_vals tn) \<noteq> 1"
  shows "build_forcing precip temp =
     (\<lparr>coords_time = forcing_dates, coords_lat = [4317 / 100], coords_lon = [- 11651 / 100],
       data_vars = [''prec'' \<mapsto> prec_vals pc, ''t_min'' \<mapsto> replicate 365 NaN,
                    ''t_max'' \<mapsto> replicate 365 NaN]\<rparr>, Some ValueError)"
  using assms
  by (simp add: build_forcing_def fill_forcing_def getitem_def set_values_def broadcast_to_def
      init_forcing fun_upd_twist)

lemma forcing_cells_positional:
  "(\<exists>p. data_vars (fst (build_forcing precip temp)) ''prec'' = Some p \<and> length p = 365
        \<and> (precip PREC = None \<longrightarrow> p = replicate 365 NaN)
        \<and> (\<forall>c. precip PREC = Some c \<and> length (prec_vals c) = 365 \<longrightarrow> p = prec_vals c)
        \<and> (\<forall>c. precip PREC = Some c \<and> length (prec_vals c) \<noteq> 1 \<longrightarrow>
               p = replicate 365 NaN \<or> p = prec_vals c))
 \<and> (\<exists>tn. data_vars (fst (build_forcing precip temp)) ''t_min'' = Some tn \<and> length tn = 365
        \<and> (temp TMIN = None \<longrightarrow> tn = replicate 365 NaN)
        \<and> (\<forall>c. temp TMIN = Some c \<and> length (tmin_vals c) \<noteq> 1 \<longrightarrow>
               tn = replicate 365 NaN \<or> tn = tmin_vals c))
 \<and> (\<exists>tx. data_vars (fst (build_forcing precip temp)) ''t_max'' = Some tx \<and> length tx = 365
        \<and> (temp TMAX = None \<longrightarrow> tx = replicate 365 NaN)
        \<and> (\<forall>c. temp TMAX = Some c \<and> length (tmax_vals c) \<noteq> 1 \<longrightarrow>
               tx = replicate 365 NaN \<or> tx = tmax_vals c))"
  unfolding build_forcing_def init_forcing fill_forcing_def set_values_def getitem_def
  by (auto simp add: broadcast_to_def split: sum.splits option.splits if_splits)

lemma forcing_short_stays_nan:
  "(\<forall>c. precip PREC = Some c \<and> length (prec_vals c) \<noteq> 365 \<and> length (prec_vals c) \<noteq> 1 \<longrightarrow>
        data_vars (fst (build_forcing precip temp)) ''prec'' = Some (replicate 365 NaN))
 \<and> (\<forall>c. temp TMIN = Some c \<and> length (tmin_vals c) \<noteq> 365 \<and> length (tmin_vals c) \<noteq> 1 \<longrightarrow>
        data_vars (fst (build_forcing precip temp)) ''t_min'' = Some (replicate 365 NaN))
 \<and> (\<forall>c. temp TMAX = Some c \<and> length (tmax_vals c) \<noteq> 365 \<and> length (tmax_vals c) \<noteq> 1 \<longrightarrow>
        data_vars (fst (build_forcing precip temp)) ''t_max'' = Some (replicate 365 NaN))"
  unfolding build_forcing_def init_forcing fill_forcing_def set_values_def getitem_def
  by (auto simp add: broadcast_to_def split: sum.splits option.splits if_splits)

lemma state_ok:
  assumes "precip PREC = Some pc" "temp TMIN = Some tn" "temp TMAX = Some tx"
    and "90 \<le> length pc" "90 \<le> length tn" "90 \<le> length tx"
  shows "build_state precip temp =
          (\<lparr>coords_time = state_dates, coords_lat = [4317 / 100], coords_lon = [- 11651 / 100],
            data_vars = [''prec'' \<mapsto> state_prec_vals pc, ''t_min'' \<mapsto> state_tmin_vals tn,
                         ''t_max'' \<mapsto> state_tmax_vals tx]\<rparr>, None)"
  unfolding build_state_def init_state fill_state_def
  using assms
  by (simp add: getitem_def set_values_def broadcast_to_def length_state_prec_vals
      length_state_tmin_vals length_state_tmax_vals)

lemma state_prec_mismatch:
  assumes "precip PREC = Some pc" and "length pc < 90" and "length pc \<noteq> 1"
  shows "build_state precip temp = (init_vars (new_dataset state_dates), Some ValueError)"
  using assms
  by (simp add: build_state_def fill_state_def getitem_def set_values_def broadcast_to_def
      init_state length_state_prec_vals)

section \<open>Cumulative-to-incremental transform\<close>

text \<open>
  C1. For a cumulative precipitation column of \<open>N \<ge> 2\<close> rows the expression
  \<^verbatim>\<open>diff().values[1:]\<close> has exactly \<open>N - 1\<close> entries, entry \<open>i\<close> is row \<open>i + 1\<close> minus
  row \<open>i\<close> (the first raw reading has no increment and is dropped), and for numeric
  readings the increments sum to the last reading minus the first.
\<close>

theorem increments_telescope:
  assumes "2 \<le> length col"
  shows "length (increments col) = length col - 1
       \<and> (\<forall>i < length col - 1. increments col ! i = csub (col ! (i + 1)) (col ! i))
       \<and> (\<forall>rs. col = map Num rs \<longrightarrow>
            increments col = map Num (map (\<lambda>i. rs ! (i + 1) - rs ! i) [0..<length rs - 1])
          \<and> sum_list (map (\<lambda>i. rs ! (i + 1) - rs ! i) [0..<length rs - 1]) = last rs - hd rs)"
proof (intro conjI allI impI)
  show "length (increments col) = length col - 1"
    by (rule length_increments)
next
  fix i assume "i < length col - 1"
  then show "increments col ! i = csub (col ! (i + 1)) (col ! i)"
    by (simp add: increments_nth)
next
  fix rs assume "col = map Num rs"
  then show "increments col = map Num (map (\<lambda>i. rs ! (i + 1) - rs ! i) [0..<length rs - 1])"
    by (simp add: increments_Num comp_def)
next
  fix rs assume "col = map Num rs"
  with assms have "rs \<noteq> []" by auto
  then show "sum_list (map (\<lambda>i. rs ! (i + 1) - rs ! i) [0..<length rs - 1]) = last rs - hd rs"
    using telescope_sum_list [of rs] by simp
qed

theorem increments_telescope_witness:
  "increments [Num 0, Num (1 / 2), Num (1 / 2), Num (12 / 10)] = [Num (1 / 2), Num 0, Num (7 / 10)]
   \<and> sum_list [1 / 2, 0, 7 / 10 :: real] = 12 / 10 - 0"
proof -
  let ?rs = "[0, 1 / 2, 1 / 2, 12 / 10 :: real]"
  have len: "2 \<le> length (map Num ?rs)" by simp
  have idx: "[0..<length ?rs - 1] = [0, 1, 2]" by (simp add: upt_rec)
  from increments_telescope [OF len]
  have "increments (map Num ?rs) = map Num (map (\<lambda>i. ?rs ! (i + 1) - ?rs ! i) [0..<length ?rs - 1])
      \<and> sum_list (map (\<lambda>i. ?rs ! (i + 1) - ?rs ! i) [0..<length ?rs - 1]) = last ?rs - hd ?rs"
    by blast
  then show ?thesis
    unfolding idx by simp
qed

text \<open>
  C2. The conversion from inches to millimetres is one multiplication by 25.4 of each
  increment, applied after differencing, in the forcing cell and in the state cell alike:
  every numeric increment \<open>d\<close> becomes \<open>d * 25.4\<close>. The cumulative readings
  0.0, 0.5, 0.5, 1.2 inches give the increments 0.5, 0.0, 0.7 inches and 12.7, 0.0,
  17.78 mm.
\<close>

theorem prec_vals_inches_to_mm:
  "prec_vals col = map (\<lambda>c. cmul c (254 / 10)) (slice_from1 (diff col))
 \<and> state_prec_vals col = map (\<lambda>c. cmul c (254 / 10)) (slice_last 90 (diff col))
 \<and> (\<forall>i < length col - 1. prec_vals col ! i = cmul (increments col ! i) (254 / 10))
 \<and> (\<forall>rs i. col = map Num rs \<and> i + 1 < length rs \<longrightarrow>
        increments col ! i = Num (rs ! (i + 1) - rs ! i)
      \<and> prec_vals col ! i = Num ((rs ! (i + 1) - rs ! i) * (254 / 10)))
 \<and> increments [Num 0, Num (5 / 10), Num (5 / 10), Num (12 / 10)]
      = [Num (5 / 10), Num 0, Num (7 / 10)]
 \<and> prec_vals [Num 0, Num (5 / 10), Num (5 / 10), Num (12 / 10)]
      = [Num (127 / 10), Num 0, Num (1778 / 100)]"
proof -
  have a: "prec_vals col = map (\<lambda>c. cmul c (254 / 10)) (slice_from1 (diff col))"
    by (simp add: prec_vals_def in_to_mm_def increments_def)
  have b: "state_prec_vals col = map (\<lambda>c. cmul c (254 / 10)) (slice_last 90 (diff col))"
    by (simp add: state_prec_vals_def in_to_mm_def)
  have c: "\<forall>i < length col - 1. prec_vals col ! i = cmul (increments col ! i) (254 / 10)"
    by (simp add: prec_vals_def in_to_mm_def length_increments)
  have d: "\<forall>rs i. col = map Num rs \<and> i + 1 < length rs \<longrightarrow>
        increments col ! i = Num (rs ! (i + 1) - rs ! i)
      \<and> prec_vals col ! i = Num ((rs ! (i + 1) - rs ! i) * (254 / 10))"
    using prec_vals_Num_nth by (auto simp add: increments_nth)
  have e: "increments [Num 0, Num (5 / 10), Num (5 / 10), Num (12 / 10)]
      = [Num (5 / 10), Num 0, Num (7 / 10)]"
    by (simp add: increments_def slice_from1_def diff_def shift1_def)
  have f: "prec_vals [Num 0, Num (5 / 10), Num (5 / 10), Num (12 / 10)]
      = [Num (127 / 10), Num 0, Num (1778 / 100)]"
    unfolding prec_vals_def e by (simp add: in_to_mm_def)
  from a b c d e f show ?thesis by (intro conjI)
qed

theorem prec_vals_inches_to_mm_witness:
  "prec_vals (map Num [0, 5 / 10, 5 / 10, 12 / 10]) ! 2 = Num (1778 / 100)
 \<and> increments (map Num [0, 5 / 10, 5 / 10, 12 / 10]) ! 2 = Num (7 / 10)"
proof -
  let ?rs = "[0, 5 / 10, 5 / 10, 12 / 10 :: real]"
  have "map Num ?rs = map Num ?rs \<and> 2 + 1 < length ?rs" by simp
  with prec_vals_inches_to_mm [of "map Num ?rs"]
  have "increments (map Num ?rs) ! 2 = Num (?rs ! (2 + 1) - ?rs ! 2)
      \<and> prec_vals (map Num ?rs) ! 2 = Num ((?rs ! (2 + 1) - ?rs ! 2) * (254 / 10))"
    by blast
  then show ?thesis by simp
qed

text \<open>
  C7. Where a cumulative reading is lower than the one before it (a counter reset), the
  increment is the negative difference itself and its value in millimetres is that
  difference times 25.4, again negative: nothing is clamped or corrected.
\<close>

theorem negative_increment_passthrough:
  assumes "i + 1 < length rs" and "rs ! (i + 1) < rs ! i"
  shows "increments (map Num rs) ! i = Num (rs ! (i + 1) - rs ! i)
       \<and> rs ! (i + 1) - rs ! i < 0
       \<and> prec_vals (map Num rs) ! i = Num ((rs ! (i + 1) - rs ! i) * (254 / 10))
       \<and> (rs ! (i + 1) - rs ! i) * (254 / 10) < 0"
proof -
  have "increments (map Num rs) ! i = Num (rs ! (i + 1) - rs ! i)"
    using assms(1) by (simp add: increments_nth)
  moreover have "rs ! (i + 1) - rs ! i < 0"
    using assms(2) by simp
  moreover have "prec_vals (map Num rs) ! i = Num ((rs ! (i + 1) - rs ! i) * (254 / 10))"
    using assms(1) by (rule prec_vals_Num_nth)
  moreover have "(rs ! (i + 1) - rs ! i) * (254 / 10) < 0"
    using assms(2) by (simp add: mult_less_0_iff)
  ultimately show ?thesis by (intro conjI)
qed

theorem negative_increment_passthrough_witness:
  "increments [Num 10, Num 12, Num 2] ! 1 = Num (- 10)
 \<and> prec_vals [Num 10, Num 12, Num 2] ! 1 = Num (- 254)"
proof -
  let ?rs = "[10, 12, 2 :: real]"
  have h1: "1 + 1 < length ?rs" by simp
  have h2: "?rs ! (1 + 1) < ?rs ! 1" by simp
  from negative_increment_passthrough [OF h1 h2] show ?thesis by simp
qed

section \<open>Spin-up window\<close>

text \<open>
  C3, as the code has it. For a precipitation column of at least 91 rows the state cell
  takes exactly the last 90 increments: entry \<open>i\<close> of the window is raw row
  \<open>n - 90 + i\<close> minus raw row \<open>n - 91 + i\<close> (rows counted from 0, \<open>n\<close> the number of
  rows), times 25.4. For a temperature column of at least 90 rows it takes exactly the
  last 90 raw entries, entry \<open>i\<close> being raw row \<open>n - 90 + i\<close>; for a column of 92 rows
  that is the column without its first two rows, rows 3 to 92 counted from 1. With
  three such columns the state dataset is written with exactly these windows.
\<close>

theorem spinup_window_last_90:
  "(91 \<le> length col \<longrightarrow>
        state_prec_vals col = drop (length col - 91) (prec_vals col)
      \<and> length (state_prec_vals col) = 90
      \<and> (\<forall>i < 90. state_prec_vals col ! i =
            cmul (csub (col ! (length col - 90 + i)) (col ! (length col - 91 + i))) (254 / 10)))
 \<and> (90 \<le> length col \<longrightarrow>
        state_tmin_vals col = drop (length col - 90) col
      \<and> length (state_tmin_vals col) = 90
      \<and> state_tmax_vals col = drop (length col - 90) col
      \<and> length (state_tmax_vals col) = 90
      \<and> (\<forall>i < 90. state_tmin_vals col ! i = col ! (length col - 90 + i)
                  \<and> state_tmax_vals col ! i = col ! (length col - 90 + i)))
 \<and> (length col = 92 \<longrightarrow>
        state_tmin_vals col = drop 2 col \<and> state_tmax_vals col = drop 2 col
      \<and> (\<forall>i < 90. state_tmin_vals col ! i = col ! (i + 2) \<and> state_tmax_vals col ! i = col ! (i + 2)))
 \<and> (\<forall>precip temp tn tx.
        precip PREC = Some col \<and> temp TMIN = Some tn \<and> temp TMAX = Some tx
      \<and> 91 \<le> length col \<and> 90 \<le> length tn \<and> 90 \<le> length tx \<longrightarrow>
        build_state precip temp =
          (\<lparr>coords_time = state_dates, coords_lat = [4317 / 100], coords_lon = [- 11651 / 100],
            data_vars = [''prec'' \<mapsto> state_prec_vals col, ''t_min'' \<mapsto> state_tmin_vals tn,
                         ''t_max'' \<mapsto> state_tmax_vals tx]\<rparr>, None))"
proof -
  have w91: "91 \<le> length col \<longrightarrow>
        state_prec_vals col = drop (length col - 91) (prec_vals col)
      \<and> length (state_prec_vals col) = 90
      \<and> (\<forall>i < 90. state_prec_vals col ! i =
            cmul (csub (col ! (length col - 90 + i)) (col ! (length col - 91 + i))) (254 / 10))"
  proof (intro impI conjI allI)
    assume a: "91 \<le> length col"
    show "state_prec_vals col = drop (length col - 91) (prec_vals col)"
      using a by (rule state_prec_vals_increments)
    show "length (state_prec_vals col) = 90"
      using a by (simp add: length_state_prec_vals)
    fix i :: nat
    assume "i < 90"
    with a show "state_prec_vals col ! i =
            cmul (csub (col ! (length col - 90 + i)) (col ! (length col - 91 + i))) (254 / 10)"
      by (rule state_prec_vals_nth)
  qed
  have w90: "90 \<le> length col \<longrightarrow>
        state_tmin_vals col = drop (length col - 90) col
      \<and> length (state_tmin_vals col) = 90
      \<and> state_tmax_vals col = drop (length col - 90) col
      \<and> length (state_tmax_vals col) = 90
      \<and> (\<forall>i < 90. state_tmin_vals col ! i = col ! (length col - 90 + i)
                  \<and> state_tmax_vals col ! i = col ! (length col - 90 + i))"
    using state_tmin_vals_drop [of col] state_tmax_vals_drop [of col]
      length_state_tmin_vals [of col] length_state_tmax_vals [of col]
      state_tmin_vals_nth [of col] state_tmax_vals_nth [of col]
    by simp
  have w92: "length col = 92 \<longrightarrow>
        state_tmin_vals col = drop 2 col \<and> state_tmax_vals col = drop 2 col
      \<and> (\<forall>i < 90. state_tmin_vals col ! i = col ! (i + 2) \<and> state_tmax_vals col ! i = col ! (i + 2))"
    by (simp add: state_tmin_vals_drop state_tmax_vals_drop add.commute)
  have ds: "\<forall>precip temp tn tx.
        precip PREC = Some col \<and> temp TMIN = Some tn \<and> temp TMAX = Some tx
      \<and> 91 \<le> length col \<and> 90 \<le> length tn \<and> 90 \<le> length tx \<longrightarrow>
        build_state precip temp =
          (\<lparr>coords_time = state_dates, coords_lat = [4317 / 100], coords_lon = [- 11651 / 100],
            data_vars = [''prec'' \<mapsto> state_prec_vals col, ''t_min'' \<mapsto> state_tmin_vals tn,
                         ''t_max'' \<mapsto> state_tmax_vals tx]\<rparr>, None)"
    using state_ok [of _ col] by simp
  from w91 w90 w92 ds show ?thesis by (intro conjI)
qed

theorem spinup_window_last_90_witness:
  "state_tmin_vals (map (\<lambda>i. Num (real i)) [1..<93]) ! 0 = Num 3
 \<and> state_tmin_vals (map (\<lambda>i. Num (real i)) [1..<93]) ! 89 = Num 92
 \<and> length (state_tmin_vals (map (\<lambda>i. Num (real i)) [1..<93])) = 90
 \<and> state_prec_vals (map (\<lambda>i. Num (real (i * i))) [0..<91]) ! 0 = Num (254 / 10)
 \<and> state_prec_vals (map (\<lambda>i. Num (real (i * i))) [0..<91]) ! 89 = Num (179 * (254 / 10))
 \<and> length (state_prec_vals (map (\<lambda>i. Num (real (i * i))) [0..<91])) = 90"
proof -
  let ?col = "map (\<lambda>i. Num (real i)) [1..<93]"
  let ?pc = "map (\<lambda>i. Num (real (i * i))) [0..<91]"
  have len: "length ?col = 92" by simp
  have ge: "90 \<le> length ?col" by simp
  from spinup_window_last_90 [of ?col] len ge
  have w: "\<forall>i < 90. state_tmin_vals ?col ! i = ?col ! (i + 2)"
    and l: "length (state_tmin_vals ?col) = 90"
    by blast+
  have t0: "state_tmin_vals ?col ! 0 = ?col ! (0 + 2)" using w by simp
  have t89: "state_tmin_vals ?col ! 89 = ?col ! (89 + 2)" using w by simp
  have plen: "91 \<le> length ?pc" by simp
  from spinup_window_last_90 [of ?pc] plen
  have pw: "\<forall>i < 90. state_prec_vals ?pc ! i =
            cmul (csub (?pc ! (length ?pc - 90 + i)) (?pc ! (length ?pc - 91 + i))) (254 / 10)"
    and pl: "length (state_prec_vals ?pc) = 90"
    by blast+
  have p0: "state_prec_vals ?pc ! 0 =
            cmul (csub (?pc ! (length ?pc - 90 + 0)) (?pc ! (length ?pc - 91 + 0))) (254 / 10)"
    using pw by simp
  have p89: "state_prec_vals ?pc ! 89 =
            cmul (csub (?pc ! (length ?pc - 90 + 89)) (?pc ! (length ?pc - 91 + 89))) (254 / 10)"
    using pw by simp
  have "state_prec_vals ?pc ! 0 = Num (254 / 10)"
    unfolding p0 by simp
  moreover have "state_prec_vals ?pc ! 89 = Num (179 * (254 / 10))"
    unfolding p89 by simp
  ultimately show ?thesis using t0 t89 l pl by simp
qed

text \<open>
  A precipitation column of exactly 90 rows has only 89 increments. The state cell
  accepts it all the same: the window it stores has 90 entries, and the first of them is
  the \<^verbatim>\<open>nan\<close> that \<^verbatim>\<open>diff()\<close> puts in its first row, not an increment.
\<close>

theorem ninety_row_window_starts_with_nan:
  "length (replicate 90 (Num 0)) = 90
 \<and> length (increments (replicate 90 (Num 0))) = 89
 \<and> length (state_prec_vals (replicate 90 (Num 0))) = 90
 \<and> state_prec_vals (replicate 90 (Num 0)) ! 0 = NaN
 \<and> snd (build_state [PREC \<mapsto> replicate 90 (Num 0)]
           [TMIN \<mapsto> replicate 90 (Num 0), TMAX \<mapsto> replicate 90 (Num 0)]) = None
 \<and> data_vars (fst (build_state [PREC \<mapsto> replicate 90 (Num 0)]
           [TMIN \<mapsto> replicate 90 (Num 0), TMAX \<mapsto> replicate 90 (Num 0)])) ''prec''
      = Some (state_prec_vals (replicate 90 (Num 0)))"
proof -
  let ?pc = "replicate 90 (Num 0)"
  have t: "TMIN \<noteq> TMAX" by (simp add: TMIN_def TMAX_def)
  have d0: "diff ?pc ! 0 = NaN"
    by (rule diff_nth_0) simp
  have "state_prec_vals ?pc = in_to_mm (diff ?pc)"
    by (rule state_prec_vals_short) simp
  then have n: "state_prec_vals ?pc ! 0 = NaN"
    using d0 by (simp add: in_to_mm_def length_diff)
  have b: "build_state [PREC \<mapsto> ?pc] [TMIN \<mapsto> ?pc, TMAX \<mapsto> ?pc] =
          (\<lparr>coords_time = state_dates, coords_lat = [4317 / 100], coords_lon = [- 11651 / 100],
            data_vars = [''prec'' \<mapsto> state_prec_vals ?pc, ''t_min'' \<mapsto> state_tmin_vals ?pc,
                         ''t_max'' \<mapsto> state_tmax_vals ?pc]\<rparr>, None)"
    using t by (intro state_ok) simp_all
  show ?thesis
    using n by (simp add: b length_increments length_state_prec_vals)
qed

text \<open>
  C6, as the code has it. For a precipitation column with fewer than 90 rows, and not
  exactly one row, the slice \<^verbatim>\<open>[-90:]\<close> returns the whole differenced series, the
  assignment into the 90-day array raises numpy's \<^verbatim>\<open>ValueError\<close>, and the state dataset
  keeps the \<^verbatim>\<open>nan\<close> cells it was created with: no shorter window is stored.
\<close>

theorem short_history_raises_value_error:
  assumes "precip PREC = Some pc" and "length pc < 90" and "length pc \<noteq> 1"
  shows "state_prec_vals pc = in_to_mm (diff pc)
       \<and> length (state_prec_vals pc) = length pc
       \<and> build_state precip temp = (init_vars (new_dataset state_dates), Some ValueError)
       \<and> data_vars (init_vars (new_dataset state_dates)) ''prec'' = Some (replicate 90 NaN)"
proof -
  have "state_prec_vals pc = in_to_mm (diff pc)"
    using assms(2) by (simp add: state_prec_vals_short)
  moreover have "length (state_prec_vals pc) = length pc"
    using assms(2) by (simp add: length_state_prec_vals)
  moreover have "build_state precip temp = (init_vars (new_dataset state_dates), Some ValueError)"
    using assms by (rule state_prec_mismatch)
  moreover have "data_vars (init_vars (new_dataset state_dates)) ''prec'' = Some (replicate 90 NaN)"
    by (simp add: init_state)
  ultimately show ?thesis by (intro conjI)
qed

theorem short_history_raises_value_error_witness:
  "state_prec_vals [Num 0, Num 1] = [NaN, Num (254 / 10)]
 \<and> build_state [PREC \<mapsto> [Num 0, Num 1]] Map.empty
      = (init_vars (new_dataset state_dates), Some ValueError)"
proof -
  have h1: "[PREC \<mapsto> [Num 0, Num 1]] PREC = Some [Num 0, Num 1]" by simp
  have h2: "length [Num 0, Num 1] < 90" by simp
  have h3: "length [Num 0, Num 1] \<noteq> 1" by simp
  have d: "in_to_mm (diff [Num 0, Num 1]) = [NaN, Num (254 / 10)]"
    by (simp add: in_to_mm_def diff_def shift1_def)
  from short_history_raises_value_error
         [of "[PREC \<mapsto> [Num 0, Num 1]]" "[Num 0, Num 1]" Map.empty] h1 h2 h3 d
  show ?thesis by simp
qed

text \<open>
  A precipitation column of a single row is not refused: its differenced series is the
  single \<^verbatim>\<open>nan\<close>, which numpy broadcasts over the 90 days, and the state dataset is
  written without any exception.
\<close>

theorem single_row_history_accepted:
  "length [Num 0] < 90
 \<and> state_prec_vals [Num 0] = [NaN]
 \<and> build_state [PREC \<mapsto> [Num 0]]
       [TMIN \<mapsto> replicate 90 (Num 0), TMAX \<mapsto> replicate 90 (Num 0)]
     = (\<lparr>coords_time = state_dates, coords_lat = [4317 / 100], coords_lon = [- 11651 / 100],
         data_vars = [''prec'' \<mapsto> replicate 90 NaN,
                      ''t_min'' \<mapsto> replicate 90 (Num 0),
                      ''t_max'' \<mapsto> replicate 90 (Num 0)]\<rparr>, None)"
proof -
  have p: "state_prec_vals [Num 0] = [NaN]"
    by (simp add: state_prec_vals_def in_to_mm_def slice_last_def diff_def shift1_def)
  have t: "TMIN \<noteq> TMAX" by (simp add: TMIN_def TMAX_def)
  have b: "build_state [PREC \<mapsto> [Num 0]]
       [TMIN \<mapsto> replicate 90 (Num 0), TMAX \<mapsto> replicate 90 (Num 0)]
     = (\<lparr>coords_time = state_dates, coords_lat = [4317 / 100], coords_lon = [- 11651 / 100],
         data_vars = [''prec'' \<mapsto> replicate 90 NaN,
                      ''t_min'' \<mapsto> replicate 90 (Num 0),
                      ''t_max'' \<mapsto> replicate 90 (Num 0)]\<rparr>, None)"
    unfolding build_state_def init_state fill_state_def
    using t
    by (simp add: p getitem_def set_values_def broadcast_to_def
        state_tmin_vals_def state_tmax_vals_def slice_last_def)
  from p b show ?thesis by simp
qed

section \<open>Time axes of the two datasets\<close>

text \<open>
  C4. The time axis of the state dataset ends on 31 December 2009, exactly one day
  before 1 January 2010, the first day of the forcing dataset; the two axes put end to
  end are the unbroken daily range from 3 October 2009 to 31 December 2010, they share
  no day, and the state axis has 90 days.
\<close>

theorem state_axis_precedes_forcing:
  "coords_time (fst (build_state precip_2009 temp_2009)) = state_dates
 \<and> coords_time (fst (build_forcing precip_2010 temp_2010)) = forcing_dates
 \<and> state_dates \<noteq> [] \<and> forcing_dates \<noteq> []
 \<and> last state_dates = ymd2ord (2009, 12, 31)
 \<and> hd forcing_dates = ymd2ord (2010, 1, 1)
 \<and> last state_dates + 1 = hd forcing_dates
 \<and> state_dates @ forcing_dates = date_range (2009, 10, 3) (2010, 12, 31)
 \<and> set state_dates \<inter> set forcing_dates = {}
 \<and> length state_dates = 90"
proof -
  have "coords_time (fst (build_state precip_2009 temp_2009)) = state_dates"
    by (simp add: build_state_def fill_state_coords coords_time_init)
  moreover have "coords_time (fst (build_forcing precip_2010 temp_2010)) = forcing_dates"
    by (simp add: build_forcing_def fill_forcing_coords coords_time_init)
  moreover have "state_dates \<noteq> []" "forcing_dates \<noteq> []"
    using length_state_dates length_forcing_dates by auto
  moreover have "last state_dates = ymd2ord (2009, 12, 31)"
    unfolding ord_2009_12_31 by (rule last_state_dates)
  moreover have "hd forcing_dates = ymd2ord (2010, 1, 1)"
    unfolding ord_2010_01_01 by (rule hd_forcing_dates)
  moreover have "last state_dates + 1 = hd forcing_dates"
    by (simp add: last_state_dates hd_forcing_dates)
  ultimately show ?thesis
    using state_forcing_append state_forcing_disjoint length_state_dates by (intro conjI)
qed

theorem state_axis_precedes_forcing_witness:
  "coords_time (fst (build_state Map.empty Map.empty)) = state_dates
 \<and> coords_time (fst (build_forcing Map.empty Map.empty)) = forcing_dates
 \<and> last state_dates + 1 = hd forcing_dates
 \<and> length state_dates = 90"
  using state_axis_precedes_forcing [of Map.empty Map.empty Map.empty Map.empty]
  by (intro conjI) blast+



section \<open>Assembly\<close>

text \<open>
  C5, as the code has it. Assigning a series whose length differs from the length of the
  time axis, and is not 1, raises numpy's \<^verbatim>\<open>ValueError\<close>. In the forcing cell a
  precipitation series of such a length stops the cell with every cell still \<^verbatim>\<open>nan\<close>;
  with a precipitation series of 365 values and a minimum-temperature series of 364,
  the cell stops at the temperature assignment, whose variable stays \<^verbatim>\<open>nan\<close>: it is
  neither truncated nor padded.
\<close>

theorem length_mismatch_raises_value_error:
  "(\<forall>ds v arr vals. data_vars ds v = Some arr \<and> length vals \<noteq> length arr \<and> length vals \<noteq> 1 \<longrightarrow>
        set_values v vals ds = Inl ValueError)
 \<and> (\<forall>pc. precip PREC = Some pc \<and> length (prec_vals pc) \<noteq> 365 \<and> length (prec_vals pc) \<noteq> 1 \<longrightarrow>
        build_forcing precip temp = (init_vars (new_dataset forcing_dates), Some ValueError)
      \<and> data_vars (init_vars (new_dataset forcing_dates)) ''prec'' = Some (replicate 365 NaN))
 \<and> (\<forall>pc tn tx. precip PREC = Some pc \<and> temp TMIN = Some tn \<and> temp TMAX = Some tx
        \<and> length (prec_vals pc) = 365 \<and> length (tmin_vals tn) = 364 \<longrightarrow>
        snd (build_forcing precip temp) = Some ValueError
      \<and> data_vars (fst (build_forcing precip temp)) ''prec'' = Some (prec_vals pc)
      \<and> data_vars (fst (build_forcing precip temp)) ''t_min'' = Some (replicate 365 NaN))"
proof -
  have a: "\<forall>ds v arr vals. data_vars ds v = Some arr \<and> length vals \<noteq> length arr \<and> length vals \<noteq> 1 \<longrightarrow>
        set_values v vals ds = Inl ValueError"
    by (simp add: set_values_def broadcast_to_def)
  have b: "\<forall>pc. precip PREC = Some pc \<and> length (prec_vals pc) \<noteq> 365 \<and> length (prec_vals pc) \<noteq> 1 \<longrightarrow>
        build_forcing precip temp = (init_vars (new_dataset forcing_dates), Some ValueError)
      \<and> data_vars (init_vars (new_dataset forcing_dates)) ''prec'' = Some (replicate 365 NaN)"
    using forcing_prec_mismatch [of precip _ temp] by (simp add: init_forcing)
  have c: "\<forall>pc tn tx. precip PREC = Some pc \<and> temp TMIN = Some tn \<and> temp TMAX = Some tx
        \<and> length (prec_vals pc) = 365 \<and> length (tmin_vals tn) = 364 \<longrightarrow>
        snd (build_forcing precip temp) = Some ValueError
      \<and> data_vars (fst (build_forcing precip temp)) ''prec'' = Some (prec_vals pc)
      \<and> data_vars (fst (build_forcing precip temp)) ''t_min'' = Some (replicate 365 NaN)"
    using forcing_tmin_mismatch [of precip _ temp] by simp
  from a b c show ?thesis by (intro conjI)
qed

theorem length_mismatch_raises_value_error_witness:
  "build_forcing [PREC \<mapsto> replicate 365 (Num 0)] Map.empty
     = (init_vars (new_dataset forcing_dates), Some ValueError)
 \<and> length (prec_vals (replicate 365 (Num 0))) = 364"
proof -
  have len: "length (prec_vals (replicate 365 (Num 0))) = 364"
    by (simp add: length_prec_vals)
  have "[PREC \<mapsto> replicate 365 (Num 0)] PREC = Some (replicate 365 (Num 0))
      \<and> length (prec_vals (replicate 365 (Num 0))) \<noteq> 365
      \<and> length (prec_vals (replicate 365 (Num 0))) \<noteq> 1"
    using len by simp
  with length_mismatch_raises_value_error [of "[PREC \<mapsto> replicate 365 (Num 0)]" Map.empty]
  have "build_forcing [PREC \<mapsto> replicate 365 (Num 0)] Map.empty
     = (init_vars (new_dataset forcing_dates), Some ValueError)"
    by blast
  with len show ?thesis by (intro conjI)
qed

text \<open>
  A series of exactly one value is not refused: CSV files of two rows give one increment
  and one temperature each, and numpy broadcasts each single value over the 365 days.
\<close>

theorem single_value_is_broadcast:
  "length (prec_vals [Num 0, Num 1]) = 1
 \<and> length forcing_dates = 365
 \<and> build_forcing [PREC \<mapsto> [Num 0, Num 1]] [TMIN \<mapsto> [Num 0, Num 5], TMAX \<mapsto> [Num 0, Num 9]]
     = (\<lparr>coords_time = forcing_dates, coords_lat = [4317 / 100], coords_lon = [- 11651 / 100],
         data_vars = [''prec'' \<mapsto> replicate 365 (Num (254 / 10)),
                      ''t_min'' \<mapsto> replicate 365 (Num 5),
                      ''t_max'' \<mapsto> replicate 365 (Num 9)]\<rparr>, None)"
proof -
  have p: "prec_vals [Num 0, Num 1] = [Num (254 / 10)]"
    by (simp add: prec_vals_def in_to_mm_def increments_def slice_from1_def diff_def shift1_def)
  have t: "TMIN \<noteq> TMAX" by (simp add: TMIN_def TMAX_def)
  show ?thesis
    unfolding build_forcing_def init_forcing fill_forcing_def
    using t
    by (simp add: p length_forcing_dates getitem_def set_values_def broadcast_to_def
        tmin_vals_def tmax_vals_def slice_from1_def)
qed

text \<open>
  C9, as the code has it. Every variable of the forcing dataset is created full of
  \<^verbatim>\<open>nan\<close>, never of zeros. After the forcing cell has run, with or without an exception,
  each of the three variables still has 365 cells; a variable whose column is absent is
  all \<^verbatim>\<open>nan\<close>; a variable whose supplied series has a length other than 1 is either
  still all \<^verbatim>\<open>nan\<close> or exactly that series, day for day; and a series whose length is
  neither 365 nor 1 leaves its variable all \<^verbatim>\<open>nan\<close>.
\<close>

theorem forcing_cells_nan_or_supplied:
  "data_vars (init_vars (new_dataset forcing_dates)) ''prec'' = Some (replicate 365 NaN)
 \<and> data_vars (init_vars (new_dataset forcing_dates)) ''t_min'' = Some (replicate 365 NaN)
 \<and> data_vars (init_vars (new_dataset forcing_dates)) ''t_max'' = Some (replicate 365 NaN)
 \<and> Num 0 \<notin> set (replicate 365 NaN)
 \<and> (\<exists>p. data_vars (fst (build_forcing precip temp)) ''prec'' = Some p \<and> length p = 365
        \<and> (precip PREC = None \<longrightarrow> p = replicate 365 NaN)
        \<and> (\<forall>c. precip PREC = Some c \<and> length (prec_vals c) = 365 \<longrightarrow> p = prec_vals c)
        \<and> (\<forall>c. precip PREC = Some c \<and> length (prec_vals c) \<noteq> 1 \<longrightarrow>
               p = replicate 365 NaN \<or> p = prec_vals c))
 \<and> (\<exists>tn. data_vars (fst (build_forcing precip temp)) ''t_min'' = Some tn \<and> length tn = 365
        \<and> (temp TMIN = None \<longrightarrow> tn = replicate 365 NaN)
        \<and> (\<forall>c. temp TMIN = Some c \<and> length (tmin_vals c) \<noteq> 1 \<longrightarrow>
               tn = replicate 365 NaN \<or> tn = tmin_vals c))
 \<and> (\<exists>tx. data_vars (fst (build_forcing precip temp)) ''t_max'' = Some tx \<and> length tx = 365
        \<and> (temp TMAX = None \<longrightarrow> tx = replicate 365 NaN)
        \<and> (\<forall>c. temp TMAX = Some c \<and> length (tmax_vals c) \<noteq> 1 \<longrightarrow>
               tx = replicate 365 NaN \<or> tx = tmax_vals c))
 \<and> (\<forall>c. precip PREC = Some c \<and> length (prec_vals c) \<noteq> 365 \<and> length (prec_vals c) \<noteq> 1 \<longrightarrow>
        data_vars (fst (build_forcing precip temp)) ''prec'' = Some (replicate 365 NaN))
 \<and> (\<forall>c. temp TMIN = Some c \<and> length (tmin_vals c) \<noteq> 365 \<and> length (tmin_vals c) \<noteq> 1 \<longrightarrow>
        data_vars (fst (build_forcing precip temp)) ''t_min'' = Some (replicate 365 NaN))
 \<and> (\<forall>c. temp TMAX = Some c \<and> length (tmax_vals c) \<noteq> 365 \<and> length (tmax_vals c) \<noteq> 1 \<longrightarrow>
        data_vars (fst (build_forcing precip temp)) ''t_max'' = Some (replicate 365 NaN))"
proof -
  have i: "data_vars (init_vars (new_dataset forcing_dates)) ''prec'' = Some (replicate 365 NaN)"
    "data_vars (init_vars (new_dataset forcing_dates)) ''t_min'' = Some (replicate 365 NaN)"
    "data_vars (init_vars (new_dataset forcing_dates)) ''t_max'' = Some (replicate 365 NaN)"
    by (simp_all add: init_forcing)
  have z: "Num 0 \<notin> set (replicate 365 NaN)"
    by simp
  from i z forcing_cells_positional [of precip temp] forcing_short_stays_nan [of precip temp]
  show ?thesis by (intro conjI) blast+
qed

theorem forcing_cells_nan_or_supplied_witness:
  "length (prec_vals (replicate 100 (Num 0))) = 99
 \<and> data_vars (fst (build_forcing [PREC \<mapsto> replicate 100 (Num 0)] Map.empty)) ''prec''
      = Some (replicate 365 NaN)"
proof -
  have len: "length (prec_vals (replicate 100 (Num 0))) = 99"
    by (simp add: length_prec_vals)
  then have "[PREC \<mapsto> replicate 100 (Num 0)] PREC = Some (replicate 100 (Num 0))
      \<and> length (prec_vals (replicate 100 (Num 0))) \<noteq> 365
      \<and> length (prec_vals (replicate 100 (Num 0))) \<noteq> 1"
    by simp
  with forcing_cells_nan_or_supplied [of "[PREC \<mapsto> replicate 100 (Num 0)]" Map.empty]
  have "data_vars (fst (build_forcing [PREC \<mapsto> replicate 100 (Num 0)] Map.empty)) ''prec''
      = Some (replicate 365 NaN)"
    by blast
  with len show ?thesis by (intro conjI)
qed

text \<open>
  A series of exactly one value does fill days it does not cover, and with zero when
  that value is zero: for the cumulative readings 5, 5 the only increment is 0, and
  numpy writes it to all 365 days without any exception. The temperature columns of two
  rows whose second row is 0 behave alike.
\<close>

theorem single_increment_fills_every_day_with_zero:
  "length (prec_vals [Num 5, Num 5]) = 1
 \<and> length forcing_dates = 365
 \<and> build_forcing [PREC \<mapsto> [Num 5, Num 5]] [TMIN \<mapsto> [Num 1, Num 0], TMAX \<mapsto> [Num 2, Num 0]]
     = (\<lparr>coords_time = forcing_dates, coords_lat = [4317 / 100], coords_lon = [- 11651 / 100],
         data_vars = [''prec'' \<mapsto> replicate 365 (Num 0),
                      ''t_min'' \<mapsto> replicate 365 (Num 0),
                      ''t_max'' \<mapsto> replicate 365 (Num 0)]\<rparr>, None)"
proof -
  have p: "prec_vals [Num 5, Num 5] = [Num 0]"
    by (simp add: prec_vals_def in_to_mm_def increments_def slice_from1_def diff_def shift1_def)
  have t: "TMIN \<noteq> TMAX" by (simp add: TMIN_def TMAX_def)
  show ?thesis
    unfolding build_forcing_def init_forcing fill_forcing_def
    using t
    by (simp add: p length_forcing_dates getitem_def set_values_def broadcast_to_def
        tmin_vals_def tmax_vals_def slice_from1_def)
qed

text \<open>
  C10. In the forcing cell the first raw row is dropped from both temperature columns as
  it is from the differenced precipitation column. For CSV files of \<open>N\<close> rows the three
  series have \<open>N - 1\<close> entries each and entry \<open>i\<close> of each comes from raw row \<open>i + 1\<close>.
  When \<open>N - 1\<close> is the length of the forcing time axis the dataset is written with
  exactly these three series, and a run that ends without exception on files of other
  than two rows has \<open>N - 1\<close> equal to that length.
\<close>

theorem forcing_series_row_aligned:
  assumes "precip PREC = Some pc" and "temp TMIN = Some tn" and "temp TMAX = Some tx"
    and "length pc = N" and "length tn = N" and "length tx = N"
  shows "length (prec_vals pc) = N - 1 \<and> length (tmin_vals tn) = N - 1
       \<and> length (tmax_vals tx) = N - 1
       \<and> (\<forall>i < N - 1. prec_vals pc ! i = cmul (csub (pc ! (i + 1)) (pc ! i)) (254 / 10)
                    \<and> tmin_vals tn ! i = tn ! (i + 1)
                    \<and> tmax_vals tx ! i = tx ! (i + 1))
       \<and> (N - 1 = length forcing_dates \<longrightarrow>
            build_forcing precip temp =
              (\<lparr>coords_time = forcing_dates, coords_lat = [4317 / 100],
                coords_lon = [- 11651 / 100],
                data_vars = [''prec'' \<mapsto> prec_vals pc, ''t_min'' \<mapsto> tmin_vals tn,
                             ''t_max'' \<mapsto> tmax_vals tx]\<rparr>, None))
       \<and> (snd (build_forcing precip temp) = None \<and> N \<noteq> 2 \<longrightarrow> N - 1 = length forcing_dates)"
proof -
  have l: "length (prec_vals pc) = N - 1" "length (tmin_vals tn) = N - 1"
    "length (tmax_vals tx) = N - 1"
    using assms(4-6) by (simp_all add: length_prec_vals tmin_vals_def tmax_vals_def slice_from1_def)
  have r: "\<forall>i < N - 1. prec_vals pc ! i = cmul (csub (pc ! (i + 1)) (pc ! i)) (254 / 10)
                    \<and> tmin_vals tn ! i = tn ! (i + 1)
                    \<and> tmax_vals tx ! i = tx ! (i + 1)"
    using assms(4-6) by (simp add: prec_vals_nth tmin_vals_def tmax_vals_def slice_from1_def)
  have ok: "N - 1 = length forcing_dates \<longrightarrow>
            build_forcing precip temp =
              (\<lparr>coords_time = forcing_dates, coords_lat = [4317 / 100],
                coords_lon = [- 11651 / 100],
                data_vars = [''prec'' \<mapsto> prec_vals pc, ''t_min'' \<mapsto> tmin_vals tn,
                             ''t_max'' \<mapsto> tmax_vals tx]\<rparr>, None)"
    using assms(1-3) l
    by (simp add: build_forcing_def fill_forcing_def getitem_def set_values_def broadcast_to_def
        init_forcing length_forcing_dates)
  have conv: "snd (build_forcing precip temp) = None \<and> N \<noteq> 2 \<longrightarrow> N - 1 = length forcing_dates"
  proof (intro impI, elim conjE, rule ccontr)
    assume s: "snd (build_forcing precip temp) = None" and n: "N \<noteq> 2"
      and ne: "N - 1 \<noteq> length forcing_dates"
    have "length (prec_vals pc) \<noteq> 365" using ne l by (simp add: length_forcing_dates)
    moreover have "length (prec_vals pc) \<noteq> 1" using n l by simp
    ultimately have "snd (build_forcing precip temp) = Some ValueError"
      using forcing_prec_mismatch [of precip pc temp] assms(1) by simp
    with s show False by simp
  qed
  from l r ok conv show ?thesis by (intro conjI)
qed

theorem forcing_series_row_aligned_witness:
  "length (prec_vals (replicate 366 (Num 0))) = 365
 \<and> length (tmin_vals (replicate 366 (Num 1))) = 365
 \<and> length (tmax_vals (replicate 366 (Num 2))) = 365
 \<and> length forcing_dates = 365
 \<and> snd (build_forcing [PREC \<mapsto> replicate 366 (Num 0)]
           [TMIN \<mapsto> replicate 366 (Num 1), TMAX \<mapsto> replicate 366 (Num 2)]) = None"
proof -
  have t: "TMIN \<noteq> TMAX" by (simp add: TMIN_def TMAX_def)
  have h1: "[PREC \<mapsto> replicate 366 (Num 0)] PREC = Some (replicate 366 (Num 0))" by simp
  have h2: "[TMIN \<mapsto> replicate 366 (Num 1), TMAX \<mapsto> replicate 366 (Num 2)] TMIN
              = Some (replicate 366 (Num 1))"
    using t by simp
  have h3: "[TMIN \<mapsto> replicate 366 (Num 1), TMAX \<mapsto> replicate 366 (Num 2)] TMAX
              = Some (replicate 366 (Num 2))"
    by simp
  have h4: "length (replicate 366 (Num 0)) = 366" "length (replicate 366 (Num 1)) = 366"
    "length (replicate 366 (Num 2)) = 366"
    by simp_all
  from forcing_series_row_aligned
         [of "[PREC \<mapsto> replicate 366 (Num 0)]" "replicate 366 (Num 0)"
             "[TMIN \<mapsto> replicate 366 (Num 1), TMAX \<mapsto> replicate 366 (Num 2)]"
             "replicate 366 (Num 1)" "replicate 366 (Num 2)" 366]
       h1 h2 h3 h4 length_forcing_dates
  show ?thesis by simp
qed

end
